theory Spec2Isabelle
  imports Complex_Main
begin

section \<open>Values, exceptions and the library the program calls\<close>

text \<open>
  The program is \<^verbatim>\<open>src/app.py\<close>. Its functions read the dictionary that
  \<^verbatim>\<open>ffmpeg.probe\<close> returns (the JSON that ffprobe prints, loaded by
  \<^verbatim>\<open>json.loads\<close>). ffprobe's JSON writer prints a scalar field either as an integer
  or as a string, so a field value is one of the two.
\<close>

datatype jval = JInt int | JStr string

text \<open>A Python dict, in insertion order; a key is looked up with \<open>map_of\<close>.\<close>

type_synonym dict = "(string \<times> jval) list"

text \<open>
  The exceptions that can leave the functions modelled here. \<open>ProbeError\<close> is the class
  the program declares (line 12); \<open>FfmpegError\<close> is \<^verbatim>\<open>ffmpeg.Error\<close>; the others are
  Python's built-in exceptions.
\<close>

datatype exn =
    ProbeError string
  | FfmpegError string
  | KeyError string
  | ValueError
  | AttributeError
  | TypeError
  | OverflowError
  | ZeroDivisionError

fun is_ProbeError :: "exn \<Rightarrow> bool" where
  "is_ProbeError (ProbeError m) = True"
| "is_ProbeError e = False"

fun is_FfmpegError :: "exn \<Rightarrow> bool" where
  "is_FfmpegError (FfmpegError m) = True"
| "is_FfmpegError e = False"

text \<open>
  Python's \<^verbatim>\<open>float\<close> type and the built-in conversions are not code of the program.
  They are taken as a parameter: \<open>'f\<close> is the type of floats, and a \<open>pylib\<close> gives the
  operations on it that the program uses. Every theorem below that mentions a library
  \<open>L\<close> holds for each such library.
\<close>

record 'f pylib =
  str_to_float :: "string \<Rightarrow> 'f option"  \<comment> \<open>\<^verbatim>\<open>float(s)\<close> on a string; \<open>None\<close> is ValueError\<close>
  int_to_float :: "int \<Rightarrow> 'f option"  \<comment> \<open>\<^verbatim>\<open>float(n)\<close> on an int; \<open>None\<close> is OverflowError\<close>
  str_to_int :: "string \<Rightarrow> int option"  \<comment> \<open>\<^verbatim>\<open>int(s)\<close> on a string; \<open>None\<close> is ValueError\<close>
  float_zero :: "'f"  \<comment> \<open>the literal \<^verbatim>\<open>0.0\<close>\<close>
  float_is_zero :: "'f \<Rightarrow> bool"  \<comment> \<open>\<^verbatim>\<open>x == 0\<close>\<close>
  float_quot :: "'f \<Rightarrow> 'f \<Rightarrow> 'f"  \<comment> \<open>the quotient \<^verbatim>\<open>x / y\<close> for a divisor that is not zero\<close>
  float_lt :: "'f \<Rightarrow> 'f \<Rightarrow> bool"  \<comment> \<open>\<^verbatim>\<open>x < y\<close>\<close>
  float_gt :: "'f \<Rightarrow> 'f \<Rightarrow> bool"  \<comment> \<open>\<^verbatim>\<open>x > y\<close>\<close>
  float_le :: "'f \<Rightarrow> 'f \<Rightarrow> bool"  \<comment> \<open>\<^verbatim>\<open>x <= y\<close>\<close>

text \<open>\<^verbatim>\<open>float(v)\<close>, \<^verbatim>\<open>int(v)\<close> and \<^verbatim>\<open>x / y\<close> with the exceptions Python raises.\<close>

definition py_float :: "'f pylib \<Rightarrow> jval \<Rightarrow> exn + 'f" where
  "py_float L v =
     (case v of
        JStr s \<Rightarrow> (case str_to_float L s of None \<Rightarrow> Inl ValueError | Some x \<Rightarrow> Inr x)
      | JInt n \<Rightarrow> (case int_to_float L n of None \<Rightarrow> Inl OverflowError | Some x \<Rightarrow> Inr x))"

definition py_int :: "'f pylib \<Rightarrow> jval \<Rightarrow> exn + int" where
  "py_int L v =
     (case v of
        JInt n \<Rightarrow> Inr n
      | JStr s \<Rightarrow> (case str_to_int L s of None \<Rightarrow> Inl ValueError | Some n \<Rightarrow> Inr n))"

definition py_truediv :: "'f pylib \<Rightarrow> 'f \<Rightarrow> 'f \<Rightarrow> exn + 'f" where
  "py_truediv L x y = (if float_is_zero L y then Inl ZeroDivisionError else Inr (float_quot L x y))"

text \<open>\<^verbatim>\<open>d.get(k, default)\<close> and \<^verbatim>\<open>d[k]\<close>.\<close>

definition dict_get :: "dict \<Rightarrow> string \<Rightarrow> jval \<Rightarrow> jval" where
  "dict_get d k dflt = (case map_of d k of None \<Rightarrow> dflt | Some v \<Rightarrow> v)"

definition dict_item :: "dict \<Rightarrow> string \<Rightarrow> exn + jval" where
  "dict_item d k = (case map_of d k of None \<Rightarrow> Inl (KeyError k) | Some v \<Rightarrow> Inr v)"

text \<open>\<^verbatim>\<open>s.split(c)\<close> for a one-character separator: never the empty list.\<close>

fun split_on :: "char \<Rightarrow> string \<Rightarrow> string list" where
  "split_on c [] = [[]]"
| "split_on c (x # xs) =
     (if x = c then [] # split_on c xs
      else (x # hd (split_on c xs)) # tl (split_on c xs))"

section \<open>The resource locator (lines 10 to 30)\<close>

definition VIDEO_PATH :: string where
  "VIDEO_PATH = ''static/video.mp4''"

text \<open>The file system is the set of paths at which something exists.\<close>

definition path_exists :: "string set \<Rightarrow> string \<Rightarrow> bool" where
  "path_exists fs p = (p \<in> fs)"

text \<open>The f-string of line 26.\<close>

definition cache_path :: "string \<Rightarrow> string" where
  "cache_path video_id = ''static/cache/cached_'' @ video_id @ ''.mp4''"

text \<open>\<^verbatim>\<open>not video_id\<close> holds for \<open>None\<close> and for the empty string.\<close>

definition get_video_path :: "string set \<Rightarrow> string option \<Rightarrow> string option" where
  "get_video_path fs video_id =
     (case video_id of
        None \<Rightarrow> Some VIDEO_PATH
      | Some v \<Rightarrow>
          if v = [] then Some VIDEO_PATH
          else
            let path = cache_path v
            in if path_exists fs path then Some path else None)"

section \<open>The prober (lines 32 to 63)\<close>

text \<open>
  \<^verbatim>\<open>ffmpeg.probe\<close> runs ffprobe with \<^verbatim>\<open>-show_format -show_streams\<close>: its result has
  the list of stream dictionaries and the format dictionary.
\<close>

record probe =
  streams :: "dict list"
  format :: dict

record 'f video_metadata =
  codec :: jval
  width :: int
  height :: int
  duration :: 'f
  framerate :: 'f

text \<open>
  Lines 43 to 46: the generator is consumed up to the first stream whose
  \<^verbatim>\<open>stream['codec_type']\<close> equals \<^verbatim>\<open>'video'\<close>; the subscript raises KeyError on a
  stream without that key.
\<close>

fun first_video :: "dict list \<Rightarrow> exn + dict option" where
  "first_video [] = Inr None"
| "first_video (stream # rest) =
     (case dict_item stream ''codec_type'' of
        Inl e \<Rightarrow> Inl e
      | Inr t \<Rightarrow> if t = JStr ''video'' then Inr (Some stream) else first_video rest)"

text \<open>
  Lines 54 to 56. The value must be a string to have \<^verbatim>\<open>split\<close>; the unpacking into
  \<^verbatim>\<open>num, den\<close> raises ValueError unless there are exactly two parts; the conditional
  expression evaluates \<^verbatim>\<open>float(den) != 0\<close> first and \<^verbatim>\<open>float(num) / float(den)\<close>
  only when it holds.
\<close>

definition frame_rate :: "'f pylib \<Rightarrow> jval \<Rightarrow> exn + 'f" where
  "frame_rate L r_frame_rate =
     (case r_frame_rate of
        JInt n \<Rightarrow> Inl AttributeError
      | JStr s \<Rightarrow>
          (case split_on CHR ''/'' s of
             [num, den] \<Rightarrow>
               (case py_float L (JStr den) of
                  Inl e \<Rightarrow> Inl e
                | Inr d \<Rightarrow>
                    if \<not> float_is_zero L d then
                      (case py_float L (JStr num) of
                         Inl e \<Rightarrow> Inl e
                       | Inr n \<Rightarrow>
                           (case py_float L (JStr den) of
                              Inl e \<Rightarrow> Inl e
                            | Inr d' \<Rightarrow> py_truediv L n d'))
                    else Inr (float_zero L))
           | _ \<Rightarrow> Inl ValueError))"

text \<open>
  Lines 47 to 63, on the result of \<^verbatim>\<open>ffmpeg.probe\<close>. \<^verbatim>\<open>not video_stream\<close> holds
  for \<open>None\<close> and for an empty dictionary.
\<close>

definition metadata_of_probe :: "'f pylib \<Rightarrow> probe \<Rightarrow> exn + 'f video_metadata" where
  "metadata_of_probe L p =
     (case first_video (streams p) of
        Inl e \<Rightarrow> Inl e
      | Inr None \<Rightarrow> Inl (ProbeError ''No video stream found'')
      | Inr (Some video_stream) \<Rightarrow>
          if video_stream = [] then Inl (ProbeError ''No video stream found'')
          else
            (case py_int L (dict_get video_stream ''width'' (JInt 0)) of
               Inl e \<Rightarrow> Inl e
             | Inr w \<Rightarrow>
                 (case py_int L (dict_get video_stream ''height'' (JInt 0)) of
                    Inl e \<Rightarrow> Inl e
                  | Inr h \<Rightarrow>
                      (case dict_item (format p) ''duration'' of
                         Inl e \<Rightarrow> Inl e
                       | Inr dv \<Rightarrow>
                           (case py_float L dv of
                              Inl e \<Rightarrow> Inl e
                            | Inr dur \<Rightarrow>
                                (case frame_rate L (dict_get video_stream ''r_frame_rate'' (JStr ''0/0'')) of
                                   Inl e \<Rightarrow> Inl e
                                 | Inr fr \<Rightarrow>
                                     Inr \<lparr>codec = dict_get video_stream ''codec_name'' (JStr ''unknown''),
                                          width = w, height = h, duration = dur, framerate = fr\<rparr>))))))"

text \<open>
  Line 42: the inspection capability is a parameter, the outcome of \<^verbatim>\<open>ffmpeg.probe\<close>
  on each path; its exception propagates.
\<close>

definition get_video_metadata :: "'f pylib \<Rightarrow> (string \<Rightarrow> exn + probe) \<Rightarrow> string \<Rightarrow> exn + 'f video_metadata" where
  "get_video_metadata L ffmpeg_probe video_path =
     (case ffmpeg_probe video_path of
        Inl e \<Rightarrow> Inl e
      | Inr p \<Rightarrow> metadata_of_probe L p)"

section \<open>The routes (lines 66 to 117)\<close>

text \<open>
  What a view function returns: a JSON error body with its status and, where the program
  attaches one, the exception whose text is reported; the metadata as JSON; or the PNG
  bytes. An exception that the view function does not catch leaves it (\<open>Inl\<close>).
\<close>

datatype 'f response =
    ErrorJson nat string "exn option"
  | MetadataJson "'f video_metadata"
  | PngImage string

text \<open>
  The world outside the program: the paths that exist, the outcome of \<^verbatim>\<open>ffmpeg.probe\<close>
  on a path, and the outcome of the ffmpeg process that seeks to \<open>ss\<close> in a file and
  writes one frame to its standard output.
\<close>

record 'f world =
  files :: "string set"
  probe_outcome :: "string \<Rightarrow> exn + probe"
  run_outcome :: "string \<Rightarrow> 'f \<Rightarrow> exn + string"

text \<open>\<^verbatim>\<open>request.args.get("timestamp", type=float)\<close>: \<open>None\<close> when the parameter is
  missing or \<^verbatim>\<open>float\<close> raises ValueError on it.\<close>

definition timestamp_arg :: "'f pylib \<Rightarrow> string option \<Rightarrow> 'f option" where
  "timestamp_arg L raw = (case raw of None \<Rightarrow> None | Some s \<Rightarrow> str_to_float L s)"

definition not_found :: "string option \<Rightarrow> 'f response" where
  "not_found video_id =
     ErrorJson 404
       (''Cached video not found for video_id '' @ (case video_id of None \<Rightarrow> ''None'' | Some v \<Rightarrow> v))
       None"

text \<open>\<^verbatim>\<open>video_id and video_path is None\<close>.\<close>

definition id_not_cached :: "string option \<Rightarrow> string option \<Rightarrow> bool" where
  "id_not_cached video_id video_path =
     (video_id \<noteq> None \<and> video_id \<noteq> Some [] \<and> video_path = None)"

text \<open>
  Lines 66 to 80. After the 404 test the path is \<open>None\<close> for no request (the locator
  returns \<open>None\<close> only for a non-empty identifier); the branch is kept, as the TypeError
  that subscripting \<open>None\<close> would give.
\<close>

definition metadata :: "'f pylib \<Rightarrow> 'f world \<Rightarrow> string option \<Rightarrow> exn + 'f response" where
  "metadata L w video_id =
     (let video_path = get_video_path (files w) video_id
      in if id_not_cached video_id video_path then Inr (not_found video_id)
         else
           (case video_path of
              None \<Rightarrow> Inl TypeError
            | Some path \<Rightarrow>
                (case get_video_metadata L (probe_outcome w) path of
                   Inl e \<Rightarrow>
                     if is_ProbeError e
                     then Inr (ErrorJson 500 ''Unable to retrieve video metadata'' (Some e))
                     else Inl e
                 | Inr meta \<Rightarrow> Inr (MetadataJson meta))))"

text \<open>
  Lines 83 to 117. The second component lists the invocations of the frame-extracting
  ffmpeg process, as (path, seek position).
\<close>

definition thumbnail ::
  "'f pylib \<Rightarrow> 'f world \<Rightarrow> string option \<Rightarrow> string option \<Rightarrow> (exn + 'f response) \<times> (string \<times> 'f) list" where
  "thumbnail L w raw_timestamp video_id =
     (case timestamp_arg L raw_timestamp of
        None \<Rightarrow> (Inr (ErrorJson 400 ''Missing timestamp parameter'' None), [])
      | Some timestamp \<Rightarrow>
          (let video_path = get_video_path (files w) video_id
           in if id_not_cached video_id video_path then (Inr (not_found video_id), [])
              else
                (case video_path of
                   None \<Rightarrow> (Inl TypeError, [])
                 | Some path \<Rightarrow>
                     (case get_video_metadata L (probe_outcome w) path of
                        Inl e \<Rightarrow>
                          if is_ProbeError e
                          then (Inr (ErrorJson 500 ''Unable to retrieve video metadata'' (Some e)), [])
                          else (Inl e, [])
                      | Inr meta \<Rightarrow>
                          if float_lt L timestamp (float_zero L) \<or> float_gt L timestamp (duration meta)
                          then (Inr (ErrorJson 400 ''Timestamp out of video duration bounds'' None), [])
                          else
                            (case run_outcome w path timestamp of
                               Inr out \<Rightarrow> (Inr (PngImage out), [(path, timestamp)])
                             | Inl e \<Rightarrow>
                                 if e = ValueError \<or> is_FfmpegError e
                                 then (Inr (ErrorJson 500 ''Error generating thumbnail'' (Some e)),
                                       [(path, timestamp)])
                                 else (Inl e, [(path, timestamp)]))))))"

text \<open>
  The prober as a step of the running program. The state is the outside world together
  with the list of the paths on which ffprobe has been run so far. Line 42 runs ffprobe
  once on the path; lines 43 to 63 read and write local variables only, so the state
  that line 42 leaves is the state after the call.
\<close>

definition run_ffprobe ::
  "'f world \<times> string list \<Rightarrow> string \<Rightarrow> (exn + probe) \<times> ('f world \<times> string list)" where
  "run_ffprobe st video_path =
     (probe_outcome (fst st) video_path, (fst st, snd st @ [video_path]))"

definition get_video_metadata_step ::
  "'f pylib \<Rightarrow> 'f world \<times> string list \<Rightarrow> string \<Rightarrow>
     (exn + 'f video_metadata) \<times> ('f world \<times> string list)" where
  "get_video_metadata_step L st video_path =
     (case run_ffprobe st video_path of
        (Inl e, st') \<Rightarrow> (Inl e, st')
      | (Inr p, st') \<Rightarrow> (metadata_of_probe L p, st'))"

section \<open>A library instance and sample inputs\<close>

text \<open>
  One instance of the library, for evaluating the program on concrete inputs: a float is
  a rational number, an infinity or NaN. Finite values are not rounded, so results agree
  with IEEE doubles wherever those are exact (as on the small integers used below);
  comparisons with NaN are false, as in Python. The parsers accept plain decimal
  numerals with an optional sign, and \<^verbatim>\<open>nan\<close>, \<^verbatim>\<open>inf\<close>, \<^verbatim>\<open>-inf\<close>.
\<close>

datatype xfloat = Finite rat | PosInf | NegInf | NaN

definition digit_of :: "char \<Rightarrow> nat option" where
  "digit_of =
     map_of
       [(CHR ''0'', 0), (CHR ''1'', 1), (CHR ''2'', 2), (CHR ''3'', 3), (CHR ''4'', 4),
        (CHR ''5'', 5), (CHR ''6'', 6), (CHR ''7'', 7), (CHR ''8'', 8), (CHR ''9'', 9)]"

fun digits_value :: "nat \<Rightarrow> string \<Rightarrow> nat option" where
  "digits_value acc [] = Some acc"
| "digits_value acc (c # cs) =
     (case digit_of c of None \<Rightarrow> None | Some d \<Rightarrow> digits_value (10 * acc + d) cs)"

definition unsigned_decimal :: "string \<Rightarrow> rat option" where
  "unsigned_decimal s =
     (case split_on CHR ''.'' s of
        [a] \<Rightarrow> (if a = [] then None else map_option of_nat (digits_value 0 a))
      | [a, b] \<Rightarrow>
          (if a = [] \<and> b = [] then None
           else
             (case digits_value 0 a of
                None \<Rightarrow> None
              | Some x \<Rightarrow>
                  (case digits_value 0 b of
                     None \<Rightarrow> None
                   | Some y \<Rightarrow> Some (of_nat x + of_nat y / 10 ^ length b))))
      | _ \<Rightarrow> None)"

definition signed_decimal :: "string \<Rightarrow> rat option" where
  "signed_decimal s =
     (if s \<noteq> [] \<and> hd s = CHR ''-'' then map_option uminus (unsigned_decimal (tl s))
      else if s \<noteq> [] \<and> hd s = CHR ''+'' then unsigned_decimal (tl s)
      else unsigned_decimal s)"

definition x_str_to_float :: "string \<Rightarrow> xfloat option" where
  "x_str_to_float s =
     (if s = ''nan'' then Some NaN
      else if s = ''inf'' then Some PosInf
      else if s = ''-inf'' then Some NegInf
      else map_option Finite (signed_decimal s))"

definition x_str_to_int :: "string \<Rightarrow> int option" where
  "x_str_to_int s =
     (if s \<noteq> [] \<and> hd s = CHR ''-'' then
        (if tl s = [] then None else map_option (\<lambda>n. - int n) (digits_value 0 (tl s)))
      else if s \<noteq> [] \<and> hd s = CHR ''+'' then
        (if tl s = [] then None else map_option int (digits_value 0 (tl s)))
      else if s = [] then None
      else map_option int (digits_value 0 s))"

fun x_lt :: "xfloat \<Rightarrow> xfloat \<Rightarrow> bool" where
  "x_lt NaN y = False"
| "x_lt x NaN = False"
| "x_lt x NegInf = False"
| "x_lt PosInf y = False"
| "x_lt NegInf y = True"
| "x_lt x PosInf = True"
| "x_lt (Finite a) (Finite b) = (a < b)"

fun x_le :: "xfloat \<Rightarrow> xfloat \<Rightarrow> bool" where
  "x_le NaN y = False"
| "x_le x NaN = False"
| "x_le NegInf y = True"
| "x_le x PosInf = True"
| "x_le x NegInf = False"
| "x_le PosInf y = False"
| "x_le (Finite a) (Finite b) = (a \<le> b)"

definition x_gt :: "xfloat \<Rightarrow> xfloat \<Rightarrow> bool" where
  "x_gt x y = x_lt y x"

fun x_quot :: "xfloat \<Rightarrow> xfloat \<Rightarrow> xfloat" where
  "x_quot (Finite a) (Finite b) = Finite (a / b)"
| "x_quot (Finite a) PosInf = Finite 0"
| "x_quot (Finite a) NegInf = Finite 0"
| "x_quot PosInf (Finite b) = (if 0 \<le> b then PosInf else NegInf)"
| "x_quot NegInf (Finite b) = (if 0 \<le> b then NegInf else PosInf)"
| "x_quot x y = NaN"

definition xlib :: "xfloat pylib" where
  "xlib =
     \<lparr>str_to_float = x_str_to_float,
      int_to_float = (\<lambda>n. Some (Finite (of_int n))),
      str_to_int = x_str_to_int,
      float_zero = Finite 0,
      float_is_zero = (\<lambda>x. x = Finite 0),
      float_quot = x_quot,
      float_lt = x_lt,
      float_gt = x_gt,
      float_le = x_le\<rparr>"

text \<open>
  The inspection capability over a table of files: the probe result of a listed path,
  \<^verbatim>\<open>ffmpeg.Error\<close> for any other.
\<close>

definition probe_table :: "(string \<times> probe) list \<Rightarrow> string \<Rightarrow> exn + probe" where
  "probe_table t path =
     (case map_of t path of None \<Rightarrow> Inl (FfmpegError ''ffprobe error'') | Some p \<Rightarrow> Inr p)"

text \<open>A ten-second 640x480 H.264 file at 30 frames per second, with a sound track first.\<close>

definition audio_stream :: dict where
  "audio_stream = [(''index'', JInt 0), (''codec_name'', JStr ''aac''), (''codec_type'', JStr ''audio'')]"

definition h264_stream :: dict where
  "h264_stream =
     [(''index'', JInt 1), (''codec_name'', JStr ''h264''), (''codec_type'', JStr ''video''),
      (''width'', JInt 640), (''height'', JInt 480), (''r_frame_rate'', JStr ''30/1'')]"

definition sample_probe :: probe where
  "sample_probe =
     \<lparr>streams = [audio_stream, h264_stream],
      format = [(''format_name'', JStr ''mov,mp4,m4a,3gp,3g2,mj2''), (''duration'', JStr ''10.000000'')]\<rparr>"

text \<open>A probe result with a sound track and one video stream of the given fields.\<close>

definition video_stream_of :: "dict \<Rightarrow> dict" where
  "video_stream_of kvs = (''codec_type'', JStr ''video'') # kvs"

definition probe_of :: "dict \<Rightarrow> dict \<Rightarrow> probe" where
  "probe_of kvs fmt = \<lparr>streams = [audio_stream, video_stream_of kvs], format = fmt\<rparr>"

text \<open>
  A world whose only file is the default video, holding the given probe result; the
  frame-extracting process fails on a seek position that is NaN and writes a PNG
  otherwise.
\<close>

definition sample_run :: "string \<Rightarrow> xfloat \<Rightarrow> exn + string" where
  "sample_run path ss =
     (if ss = NaN then Inl (FfmpegError ''ffmpeg error (see stderr output for detail)'')
      else Inr ''PNG'')"

definition world_of :: "probe \<Rightarrow> xfloat world" where
  "world_of p =
     \<lparr>files = {''static/video.mp4''},
      probe_outcome = probe_table [(''static/video.mp4'', p)],
      run_outcome = sample_run\<rparr>"

text \<open>
  A later world: a download has been cached and every frame extraction fails, while
  the default video is as it was.
\<close>

definition failing_run :: "string \<Rightarrow> xfloat \<Rightarrow> exn + string" where
  "failing_run path ss = Inl (FfmpegError ''ffmpeg error (see stderr output for detail)'')"

definition later_world_of :: "probe \<Rightarrow> xfloat world" where
  "later_world_of p =
     \<lparr>files = {''static/video.mp4'', ''static/cache/cached_abc123.mp4''},
      probe_outcome =
        probe_table [(''static/cache/cached_abc123.mp4'', probe_of [] []), (''static/video.mp4'', p)],
      run_outcome = failing_run\<rparr>"

text \<open>The record invariant of the specification: no field is negative.\<close>

definition metadata_invariant :: "'f pylib \<Rightarrow> 'f video_metadata \<Rightarrow> bool" where
  "metadata_invariant L m =
     (0 \<le> width m \<and> 0 \<le> height m \<and>
      float_le L (float_zero L) (duration m) \<and> float_le L (float_zero L) (framerate m))"

text \<open>
  The identifiers that the specification wants rejected: those with a path separator or
  a \<^verbatim>\<open>..\<close> sequence.
\<close>

fun has_dotdot :: "string \<Rightarrow> bool" where
  "has_dotdot (a # b # r) = ((a = CHR ''.'' \<and> b = CHR ''.'') \<or> has_dotdot (b # r))"
| "has_dotdot r = False"

definition path_traversal :: "string \<Rightarrow> bool" where
  "path_traversal i = (CHR ''/'' \<in> set i \<or> has_dotdot i)"

text \<open>Whether a stream declares the codec type \<^verbatim>\<open>video\<close>.\<close>

definition declares_video :: "dict \<Rightarrow> bool" where
  "declares_video stream = (map_of stream ''codec_type'' = Some (JStr ''video''))"

text \<open>Whether a stream declares a codec type other than \<^verbatim>\<open>video\<close>.\<close>

definition declares_other :: "dict \<Rightarrow> bool" where
  "declares_other stream =
     (case map_of stream ''codec_type'' of None \<Rightarrow> False | Some t \<Rightarrow> t \<noteq> JStr ''video'')"

text \<open>
  Whether a field of a stream is absent or coerces, with \<^verbatim>\<open>int\<close>, to an integer
  that is not negative.
\<close>

definition declared_nonneg :: "'f pylib \<Rightarrow> dict \<Rightarrow> string \<Rightarrow> bool" where
  "declared_nonneg L d k =
     (case map_of d k of
        None \<Rightarrow> True
      | Some v \<Rightarrow> (case py_int L v of Inl e \<Rightarrow> False | Inr n \<Rightarrow> 0 \<le> n))"

section \<open>Auxiliary facts\<close>

lemmas lib_defs =
  py_float_def py_int_def py_truediv_def dict_get_def dict_item_def

lemmas xlib_defs =
  xlib_def x_str_to_float_def x_str_to_int_def signed_decimal_def unsigned_decimal_def
  digit_of_def x_gt_def

lemmas sample_defs =
  sample_probe_def audio_stream_def h264_stream_def video_stream_of_def probe_of_def
  probe_table_def world_of_def sample_run_def

lemma split_on_not_Nil: "split_on c s \<noteq> []"
  by (induction s) auto

lemma split_on_no_separator: "c \<notin> set s \<Longrightarrow> split_on c s = [s]"
  by (induction s) auto

lemma split_on_first: "c \<notin> set a \<Longrightarrow> split_on c (a @ c # b) = a # split_on c b"
  by (induction a) (auto simp: split_on_not_Nil)

lemma split_on_two:
  "c \<notin> set a \<Longrightarrow> c \<notin> set b \<Longrightarrow> split_on c (a @ c # b) = [a, b]"
  by (simp add: split_on_first split_on_no_separator)

lemma first_video_selected:
  "first_video ss = Inr (Some s) \<Longrightarrow> declares_video s \<and> s \<in> set ss"
  by (induction ss)
     (auto simp: dict_item_def declares_video_def split: option.splits if_splits)

lemma declares_video_not_Nil: "declares_video s \<Longrightarrow> s \<noteq> []"
  by (auto simp: declares_video_def)

lemma py_int_not_ProbeError: "py_int L v = Inl e \<Longrightarrow> \<not> is_ProbeError e"
  by (auto simp: py_int_def split: jval.splits option.splits)

lemma py_float_error: "py_float L v = Inl e \<Longrightarrow> e = ValueError \<or> e = OverflowError"
  by (auto simp: py_float_def split: jval.splits option.splits)

lemma py_float_str_error: "py_float L (JStr s) = Inl e \<Longrightarrow> e = ValueError"
  by (auto simp: py_float_def split: option.splits)

lemma frame_rate_error:
  "frame_rate L v = Inl e \<Longrightarrow> e = ValueError \<or> e = AttributeError"
  by (auto simp: frame_rate_def py_truediv_def
           split: jval.splits list.splits sum.splits if_splits
           dest: py_float_str_error)

section \<open>Properties of the resource locator\<close>

text \<open>
  C1. With no identifier or the empty identifier the locator returns the default path,
  whatever the file system holds; with a non-empty identifier it returns the cache path
  \<^verbatim>\<open>static/cache/cached_{identifier}.mp4\<close> when something exists there and \<open>None\<close>
  when nothing does.
\<close>

theorem get_video_path_cases:
  "get_video_path fs None = Some ''static/video.mp4'' \<and>
   get_video_path fs (Some []) = Some ''static/video.mp4'' \<and>
   (i \<noteq> [] \<longrightarrow>
      get_video_path fs (Some i) =
        (if path_exists fs (''static/cache/cached_'' @ i @ ''.mp4'')
         then Some (''static/cache/cached_'' @ i @ ''.mp4'') else None))"
  by (simp add: get_video_path_def VIDEO_PATH_def cache_path_def)

theorem get_video_path_cases_witness:
  "''abc123'' \<noteq> [] \<and>
   get_video_path {''static/cache/cached_abc123.mp4''} (Some ''abc123'') =
     Some ''static/cache/cached_abc123.mp4'' \<and>
   get_video_path {''static/cache/cached_other.mp4''} (Some ''abc123'') = None \<and>
   get_video_path {''static/cache/cached_abc123.mp4''} None = Some ''static/video.mp4'' \<and>
   get_video_path {''static/cache/cached_abc123.mp4''} (Some []) = Some ''static/video.mp4''"
  using get_video_path_cases [of "{''static/cache/cached_abc123.mp4''}" "''abc123''"]
    get_video_path_cases [of "{''static/cache/cached_other.mp4''}" "''abc123''"]
  by (simp add: path_exists_def)

section \<open>Auxiliary facts about the prober\<close>

lemma metadata_of_probe_selected:
  assumes "first_video (streams p) = Inr (Some s)"
  shows "metadata_of_probe L p =
     (case py_int L (dict_get s ''width'' (JInt 0)) of
        Inl e \<Rightarrow> Inl e
      | Inr w \<Rightarrow>
         (case py_int L (dict_get s ''height'' (JInt 0)) of
            Inl e \<Rightarrow> Inl e
          | Inr h \<Rightarrow>
             (case dict_item (format p) ''duration'' of
                Inl e \<Rightarrow> Inl e
              | Inr dv \<Rightarrow>
                 (case py_float L dv of
                    Inl e \<Rightarrow> Inl e
                  | Inr dur \<Rightarrow>
                     (case frame_rate L (dict_get s ''r_frame_rate'' (JStr ''0/0'')) of
                        Inl e \<Rightarrow> Inl e
                      | Inr fr \<Rightarrow>
                         Inr \<lparr>codec = dict_get s ''codec_name'' (JStr ''unknown''),
                              width = w, height = h, duration = dur, framerate = fr\<rparr>)))))"
  using first_video_selected [OF assms] declares_video_not_Nil [of s]
  by (simp add: metadata_of_probe_def assms)

lemma metadata_of_probe_Inr:
  assumes "first_video (streams p) = Inr (Some s)" and "metadata_of_probe L p = Inr m"
  shows "py_int L (dict_get s ''width'' (JInt 0)) = Inr (width m)"
    and "py_int L (dict_get s ''height'' (JInt 0)) = Inr (height m)"
    and "\<exists>dv. map_of (format p) ''duration'' = Some dv \<and> py_float L dv = Inr (duration m)"
    and "frame_rate L (dict_get s ''r_frame_rate'' (JStr ''0/0'')) = Inr (framerate m)"
    and "codec m = dict_get s ''codec_name'' (JStr ''unknown'')"
  using assms(2) unfolding metadata_of_probe_selected [OF assms(1)]
  by (auto simp: dict_item_def split: sum.splits option.splits)

lemma frame_rate_no_division_fault: "frame_rate L v \<noteq> Inl ZeroDivisionError"
  using frame_rate_error [of L v ZeroDivisionError] by auto

lemma first_video_error: "first_video ss = Inl e \<Longrightarrow> e = KeyError ''codec_type''"
  by (induction ss) (auto simp: dict_item_def split: option.splits if_splits)

lemma py_int_error: "py_int L v = Inl e \<Longrightarrow> e = ValueError"
  by (auto simp: py_int_def split: jval.splits option.splits)

lemma dict_item_error: "dict_item d k = Inl e \<Longrightarrow> e = KeyError k"
  by (auto simp: dict_item_def split: option.splits)

lemma metadata_of_probe_selected_error:
  assumes "first_video (streams p) = Inr (Some s)" and "metadata_of_probe L p = Inl e"
  shows "e = ValueError \<or> e = KeyError ''duration'' \<or> e = OverflowError \<or> e = AttributeError"
  using assms(2) unfolding metadata_of_probe_selected [OF assms(1)]
  by (auto split: sum.splits
      dest: py_int_error dict_item_error py_float_error frame_rate_error)

lemma metadata_of_probe_error:
  assumes "metadata_of_probe L p = Inl e"
  shows "e = ProbeError ''No video stream found'' \<or> e = KeyError ''codec_type'' \<or>
         e = ValueError \<or> e = KeyError ''duration'' \<or> e = OverflowError \<or> e = AttributeError"
proof (cases "first_video (streams p)")
  case (Inl e')
  then show ?thesis using assms first_video_error [of "streams p" e']
    by (simp add: metadata_of_probe_def)
next
  case (Inr r)
  show ?thesis
  proof (cases r)
    case None
    then show ?thesis using assms Inr by (simp add: metadata_of_probe_def)
  next
    case (Some s)
    then show ?thesis using metadata_of_probe_selected_error [of p s L e] assms Inr by auto
  qed
qed

lemma metadata_of_probe_no_division_fault: "metadata_of_probe L p \<noteq> Inl ZeroDivisionError"
  using metadata_of_probe_error [of L p ZeroDivisionError] by auto

lemma frame_rate_fraction:
  assumes "CHR ''/'' \<notin> set num" and "CHR ''/'' \<notin> set den"
    and "str_to_float L den = Some d"
  shows "frame_rate L (JStr (num @ ''/'' @ den)) =
     (if float_is_zero L d then Inr (float_zero L)
      else case str_to_float L num of None \<Rightarrow> Inl ValueError | Some n \<Rightarrow> Inr (float_quot L n d))"
  using assms by (simp add: frame_rate_def split_on_two py_float_def py_truediv_def split: option.splits)


section \<open>Properties of the prober\<close>

text \<open>
  C2. On a probe result with a video stream, the prober reads the frame-rate field
  (\<^verbatim>\<open>0/0\<close> when the field is absent), splits it at the slash and returns the quotient
  of the two floats, except that a denominator equal to zero gives the literal 0.0; in no
  case does it raise ZeroDivisionError. It returns the record whenever the width, the
  height and the duration can be read and the two parts parse. The statement holds for every float library; its
  instance below evaluates \<^verbatim>\<open>30/1\<close>, the absent field and \<^verbatim>\<open>25000/1001\<close>.
\<close>

theorem get_video_metadata_framerate:
  assumes "ffmpeg_probe path = Inr p"
  shows "get_video_metadata L ffmpeg_probe path \<noteq> Inl ZeroDivisionError \<and>
    (first_video (streams p) = Inr (Some s) \<and> get_video_metadata L ffmpeg_probe path = Inr m \<longrightarrow>
       (map_of s ''r_frame_rate'' = None \<longrightarrow> frame_rate L (JStr ''0/0'') = Inr (framerate m)) \<and>
       (dict_get s ''r_frame_rate'' (JStr ''0/0'') = JStr (num @ ''/'' @ den) \<and>
        CHR ''/'' \<notin> set num \<and> CHR ''/'' \<notin> set den \<and> str_to_float L den = Some d \<longrightarrow>
          (if float_is_zero L d then framerate m = float_zero L
           else \<exists>n. str_to_float L num = Some n \<and> framerate m = float_quot L n d))) \<and>
    (first_video (streams p) = Inr (Some s) \<and>
     py_int L (dict_get s ''width'' (JInt 0)) = Inr wd \<and>
     py_int L (dict_get s ''height'' (JInt 0)) = Inr ht \<and>
     map_of (format p) ''duration'' = Some dv \<and> py_float L dv = Inr dur \<and>
     dict_get s ''r_frame_rate'' (JStr ''0/0'') = JStr (num @ ''/'' @ den) \<and>
     CHR ''/'' \<notin> set num \<and> CHR ''/'' \<notin> set den \<and> str_to_float L den = Some d \<and>
     (\<not> float_is_zero L d \<longrightarrow> str_to_float L num = Some n) \<longrightarrow>
       get_video_metadata L ffmpeg_probe path =
         Inr \<lparr>codec = dict_get s ''codec_name'' (JStr ''unknown''), width = wd, height = ht,
              duration = dur,
              framerate = (if float_is_zero L d then float_zero L else float_quot L n d)\<rparr>)"
proof -
  have eq: "get_video_metadata L ffmpeg_probe path = metadata_of_probe L p"
    using assms by (simp add: get_video_metadata_def)
  have returns: "get_video_metadata L ffmpeg_probe path =
         Inr \<lparr>codec = dict_get s ''codec_name'' (JStr ''unknown''), width = wd, height = ht,
              duration = dur,
              framerate = (if float_is_zero L d then float_zero L else float_quot L n d)\<rparr>"
    if sel: "first_video (streams p) = Inr (Some s)"
      and w: "py_int L (dict_get s ''width'' (JInt 0)) = Inr wd"
      and h: "py_int L (dict_get s ''height'' (JInt 0)) = Inr ht"
      and dv: "map_of (format p) ''duration'' = Some dv" and dur: "py_float L dv = Inr dur"
      and r: "dict_get s ''r_frame_rate'' (JStr ''0/0'') = JStr (num @ ''/'' @ den)"
      and parts: "CHR ''/'' \<notin> set num" "CHR ''/'' \<notin> set den"
      and den: "str_to_float L den = Some d"
      and num: "\<not> float_is_zero L d \<longrightarrow> str_to_float L num = Some n"
  proof -
    have item: "dict_item (format p) ''duration'' = Inr dv"
      using dv by (simp add: dict_item_def)
    have fr: "frame_rate L (JStr (num @ ''/'' @ den)) =
        Inr (if float_is_zero L d then float_zero L else float_quot L n d)"
      using frame_rate_fraction [OF parts den] num by simp
    show ?thesis
      unfolding eq metadata_of_probe_selected [OF sel] using fr by (simp add: w h item dur r)
  qed
  have fault: "get_video_metadata L ffmpeg_probe path \<noteq> Inl ZeroDivisionError"
    unfolding eq by (rule metadata_of_probe_no_division_fault)
  have rate: "frame_rate L (dict_get s ''r_frame_rate'' (JStr ''0/0'')) = Inr (framerate m)"
    if "first_video (streams p) = Inr (Some s)" and "get_video_metadata L ffmpeg_probe path = Inr m"
    using that metadata_of_probe_Inr(4) [of p s L m] by (simp add: eq)
  have absent: "frame_rate L (JStr ''0/0'') = Inr (framerate m)"
    if "first_video (streams p) = Inr (Some s)" and "get_video_metadata L ffmpeg_probe path = Inr m"
      and "map_of s ''r_frame_rate'' = None"
    using rate [OF that(1,2)] that(3) by (simp add: dict_get_def)
  have frac: "if float_is_zero L d then framerate m = float_zero L
           else \<exists>n. str_to_float L num = Some n \<and> framerate m = float_quot L n d"
    if "first_video (streams p) = Inr (Some s)" and "get_video_metadata L ffmpeg_probe path = Inr m"
      and "dict_get s ''r_frame_rate'' (JStr ''0/0'') = JStr (num @ ''/'' @ den)"
      and "CHR ''/'' \<notin> set num" and "CHR ''/'' \<notin> set den" and "str_to_float L den = Some d"
    using rate [OF that(1,2)] frame_rate_fraction [OF that(4,5,6)] that(3)
    by (auto split: option.splits if_splits)
  show ?thesis using fault absent frac returns by blast
qed


theorem get_video_metadata_framerate_witness:
  "get_video_metadata xlib (probe_table [(''a.mp4'', sample_probe)]) ''a.mp4'' =
     Inr \<lparr>codec = JStr ''h264'', width = 640, height = 480, duration = Finite 10,
          framerate = Finite 30\<rparr> \<and>
   get_video_metadata xlib (probe_table [(''b.mp4'', probe_of [] [(''duration'', JStr ''10'')])]) ''b.mp4'' =
     Inr \<lparr>codec = JStr ''unknown'', width = 0, height = 0, duration = Finite 10,
          framerate = Finite 0\<rparr> \<and>
   get_video_metadata xlib
      (probe_table [(''c.mp4'', probe_of [(''r_frame_rate'', JStr ''25000/1001'')] [(''duration'', JStr ''10'')])])
      ''c.mp4'' =
     Inr \<lparr>codec = JStr ''unknown'', width = 0, height = 0, duration = Finite 10,
          framerate = Finite (25000 / 1001)\<rparr> \<and>
   \<bar>25000 / 1001 - 24975 / 1000\<bar> < (1 / 1000 :: rat) \<and>
   get_video_metadata xlib (probe_table [(''a.mp4'', sample_probe)]) ''a.mp4'' \<noteq> Inl ZeroDivisionError"
proof -
  let ?pa = "probe_table [(''a.mp4'', sample_probe)]"
  let ?b = "probe_of [] [(''duration'', JStr ''10'')]"
  let ?pb = "probe_table [(''b.mp4'', ?b)]"
  let ?c = "probe_of [(''r_frame_rate'', JStr ''25000/1001'')] [(''duration'', JStr ''10'')]"
  let ?pc = "probe_table [(''c.mp4'', ?c)]"
  have a1: "?pa ''a.mp4'' = Inr sample_probe" by (simp add: probe_table_def)
  have a2: "first_video (streams sample_probe) = Inr (Some h264_stream)"
    by (simp add: sample_defs dict_item_def)
  obtain ma where a3: "get_video_metadata xlib ?pa ''a.mp4'' = Inr ma"
    and a4: "codec ma = JStr ''h264''" "width ma = 640" "height ma = 480" "duration ma = Finite 10"
    by (simp add: get_video_metadata_def metadata_of_probe_def frame_rate_def lib_defs xlib_defs sample_defs)
  have a5: "dict_get h264_stream ''r_frame_rate'' (JStr ''0/0'') = JStr (''30'' @ ''/'' @ ''1'')"
    by (simp add: dict_get_def sample_defs)
  have a6: "str_to_float xlib ''1'' = Some (Finite 1)" "str_to_float xlib ''30'' = Some (Finite 30)"
    by (simp_all add: xlib_defs)
  have ra: "framerate ma = Finite 30"
    using get_video_metadata_framerate [where ffmpeg_probe = "?pa" and path = "''a.mp4''"
        and p = sample_probe and L = xlib and s = h264_stream and m = ma and num = "''30''"
        and den = "''1''" and d = "Finite 1"] a1 a2 a3 a5 a6
    by (simp add: xlib_def)
  have fa: "get_video_metadata xlib ?pa ''a.mp4'' \<noteq> Inl ZeroDivisionError"
    using get_video_metadata_framerate [where ffmpeg_probe = "?pa" and path = "''a.mp4''"
        and p = sample_probe and L = xlib] a1 by simp
  have b1: "?pb ''b.mp4'' = Inr ?b" by (simp add: probe_table_def)
  have b2: "first_video (streams ?b) = Inr (Some (video_stream_of []))"
    by (simp add: sample_defs dict_item_def)
  obtain mb where b3: "get_video_metadata xlib ?pb ''b.mp4'' = Inr mb"
    and b4: "codec mb = JStr ''unknown''" "width mb = 0" "height mb = 0" "duration mb = Finite 10"
    by (simp add: get_video_metadata_def metadata_of_probe_def frame_rate_def lib_defs xlib_defs sample_defs)
  have b5: "map_of (video_stream_of []) ''r_frame_rate'' = None"
    by (simp add: sample_defs)
  have b6: "frame_rate xlib (JStr ''0/0'') = Inr (Finite 0)"
    by (simp add: frame_rate_def lib_defs xlib_defs)
  have rb: "framerate mb = Finite 0"
    using get_video_metadata_framerate [where ffmpeg_probe = "?pb" and path = "''b.mp4''"
        and p = "?b" and L = xlib and s = "video_stream_of []" and m = mb] b1 b2 b3 b5 b6
    by simp
  have c1: "?pc ''c.mp4'' = Inr ?c" by (simp add: probe_table_def)
  have c2: "first_video (streams ?c) = Inr (Some (video_stream_of [(''r_frame_rate'', JStr ''25000/1001'')]))"
    by (simp add: sample_defs dict_item_def)
  have c5: "dict_get (video_stream_of [(''r_frame_rate'', JStr ''25000/1001'')]) ''r_frame_rate'' (JStr ''0/0'')
      = JStr (''25000'' @ ''/'' @ ''1001'')"
    by (simp add: dict_get_def sample_defs)
  have c6: "str_to_float xlib ''1001'' = Some (Finite 1001)" "str_to_float xlib ''25000'' = Some (Finite 25000)"
    by (simp_all add: xlib_defs)
  have c7: "py_int xlib (dict_get (video_stream_of [(''r_frame_rate'', JStr ''25000/1001'')]) ''width'' (JInt 0)) = Inr 0"
    "py_int xlib (dict_get (video_stream_of [(''r_frame_rate'', JStr ''25000/1001'')]) ''height'' (JInt 0)) = Inr 0"
    "dict_get (video_stream_of [(''r_frame_rate'', JStr ''25000/1001'')]) ''codec_name'' (JStr ''unknown'') = JStr ''unknown''"
    by (simp_all add: lib_defs video_stream_of_def)
  have c8: "map_of (format ?c) ''duration'' = Some (JStr ''10'')"
    "py_float xlib (JStr ''10'') = Inr (Finite 10)"
    by (simp_all add: probe_of_def lib_defs xlib_defs)
  have rc: "get_video_metadata xlib ?pc ''c.mp4'' =
     Inr \<lparr>codec = JStr ''unknown'', width = 0, height = 0, duration = Finite 10,
          framerate = Finite (25000 / 1001)\<rparr>"
    using get_video_metadata_framerate [where ffmpeg_probe = "?pc" and path = "''c.mp4''"
        and p = "?c" and L = xlib and s = "video_stream_of [(''r_frame_rate'', JStr ''25000/1001'')]"
        and num = "''25000''" and den = "''1001''" and d = "Finite 1001" and n = "Finite 25000"
        and wd = 0 and ht = 0 and dv = "JStr ''10''" and dur = "Finite 10"]
      c1 c2 c5 c6 c7 c8
    by (simp add: xlib_def)
  have approx: "\<bar>25000 / 1001 - 24975 / 1000\<bar> < (1 / 1000 :: rat)" by simp
  show ?thesis
    using a3 a4 ra fa b3 b4 rb rc approx by simp
qed

lemmas route_defs =
  thumbnail_def metadata_def timestamp_arg_def id_not_cached_def not_found_def
  get_video_path_def VIDEO_PATH_def cache_path_def path_exists_def
  get_video_metadata_def metadata_of_probe_def frame_rate_def

section \<open>Properties of the snapshot route\<close>

lemma thumbnail_bounds_check:
  assumes "timestamp_arg L raw = Some t"
    and "get_video_path (files w) video_id = Some path"
    and "get_video_metadata L (probe_outcome w) path = Inr meta"
  shows "thumbnail L w raw video_id =
     (if float_lt L t (float_zero L) \<or> float_gt L t (duration meta)
      then (Inr (ErrorJson 400 ''Timestamp out of video duration bounds'' None), [])
      else (case run_outcome w path t of
              Inr out \<Rightarrow> Inr (PngImage out)
            | Inl e \<Rightarrow>
                if e = ValueError \<or> is_FfmpegError e
                then Inr (ErrorJson 500 ''Error generating thumbnail'' (Some e))
                else Inl e,
            [(path, t)]))"
  using assms by (simp add: thumbnail_def id_not_cached_def split: sum.splits)

text \<open>
  C3. The route rejects a timestamp exactly when \<^verbatim>\<open>timestamp < 0\<close> or
  \<^verbatim>\<open>timestamp > duration\<close> holds, and then runs no ffmpeg process (the lemma above).
  A timestamp that is NaN makes both comparisons false: on the request
  \<^verbatim>\<open>/thumbnail?timestamp=nan\<close> for the ten-second sample file the route does not
  answer 400 but runs the ffmpeg process with the seek position NaN, although
  \<open>0 \<le> NaN \<le> 10\<close> does not hold.
\<close>

theorem thumbnail_nan_timestamp:
  "thumbnail xlib (world_of sample_probe) (Some ''nan'') None =
     (Inr (ErrorJson 500 ''Error generating thumbnail''
            (Some (FfmpegError ''ffmpeg error (see stderr output for detail)''))),
      [(''static/video.mp4'', NaN)]) \<and>
   get_video_metadata xlib (probe_outcome (world_of sample_probe)) ''static/video.mp4'' =
     Inr \<lparr>codec = JStr ''h264'', width = 640, height = 480, duration = Finite 10,
          framerate = Finite 30\<rparr> \<and>
   \<not> (float_le xlib (Finite 0) NaN \<and> float_le xlib NaN (Finite 10))"
  by (simp add: route_defs lib_defs xlib_defs sample_defs)

section \<open>Selection of the video stream and failures of the prober\<close>

lemma first_video_skips:
  "list_all declares_other before \<Longrightarrow> first_video (before @ rest) = first_video rest"
  by (induction before) (auto simp: declares_other_def dict_item_def split: option.splits)

lemma first_video_hit: "declares_video s \<Longrightarrow> first_video (s # rest) = Inr (Some s)"
  by (simp add: declares_video_def dict_item_def)

lemma first_video_none: "list_all declares_other ss \<Longrightarrow> first_video ss = Inr None"
  using first_video_skips [of ss "[]"] by simp

text \<open>
  Where every stream examined declares a codec type, the prober does select the first
  stream that declares \<^verbatim>\<open>video\<close> and builds the record from that stream alone, and
  it raises \<^verbatim>\<open>ProbeError('No video stream found')\<close> when none declares
  \<^verbatim>\<open>video\<close>; an exception of \<^verbatim>\<open>ffmpeg.probe\<close> propagates unchanged, and
  \<^verbatim>\<open>ffmpeg.Error\<close> is not a ProbeError.
\<close>

theorem get_video_metadata_selection:
  "(ffmpeg_probe path = Inr p \<and> streams p = before @ s # rest \<and>
      list_all declares_other before \<and> declares_video s \<longrightarrow>
        first_video (streams p) = Inr (Some s) \<and>
        get_video_metadata L ffmpeg_probe path = metadata_of_probe L (p\<lparr>streams := [s]\<rparr>)) \<and>
   (ffmpeg_probe path = Inr p \<and> list_all declares_other (streams p) \<longrightarrow>
        get_video_metadata L ffmpeg_probe path = Inl (ProbeError ''No video stream found'')) \<and>
   (ffmpeg_probe path = Inl e \<longrightarrow> get_video_metadata L ffmpeg_probe path = Inl e) \<and>
   (is_FfmpegError e \<longrightarrow> \<not> is_ProbeError e \<and> e \<noteq> ProbeError ''No video stream found'')"
proof -
  have sel: "first_video (streams p) = Inr (Some s)"
    if "streams p = before @ s # rest" "list_all declares_other before" "declares_video s"
    using that first_video_hit [of s rest] by (simp add: first_video_skips del: first_video.simps)
  have same: "get_video_metadata L ffmpeg_probe path = metadata_of_probe L (p\<lparr>streams := [s]\<rparr>)"
    if "ffmpeg_probe path = Inr p" "streams p = before @ s # rest"
       "list_all declares_other before" "declares_video s"
  proof -
    have f1: "first_video (streams (p\<lparr>streams := [s]\<rparr>)) = Inr (Some s)"
      using first_video_hit [OF that(4), of "[]"] by simp
    have f2: "format (p\<lparr>streams := [s]\<rparr>) = format p" by simp
    have "metadata_of_probe L (p\<lparr>streams := [s]\<rparr>) = metadata_of_probe L p"
      unfolding metadata_of_probe_selected [OF f1]
        metadata_of_probe_selected [OF sel [OF that(2,3,4)]] f2
      by (rule refl)
    then show ?thesis using that(1) by (simp add: get_video_metadata_def)
  qed
  have none: "get_video_metadata L ffmpeg_probe path = Inl (ProbeError ''No video stream found'')"
    if "ffmpeg_probe path = Inr p" "list_all declares_other (streams p)"
    using that by (simp add: get_video_metadata_def metadata_of_probe_def first_video_none)
  have thru: "get_video_metadata L ffmpeg_probe path = Inl e" if "ffmpeg_probe path = Inl e"
    using that by (simp add: get_video_metadata_def)
  have dist: "\<not> is_ProbeError e \<and> e \<noteq> ProbeError ''No video stream found''" if "is_FfmpegError e"
    using that by (cases e) auto
  show ?thesis using sel same none thru dist by blast
qed

theorem get_video_metadata_selection_witness:
  "get_video_metadata xlib (probe_table [(''a.mp4'', sample_probe)]) ''a.mp4'' =
     metadata_of_probe xlib (sample_probe\<lparr>streams := [h264_stream]\<rparr>) \<and>
   first_video (streams sample_probe) = Inr (Some h264_stream) \<and>
   get_video_metadata xlib
     (probe_table [(''a.mp4'', \<lparr>streams = [audio_stream], format = [(''duration'', JStr ''10'')]\<rparr>)]) ''a.mp4'' =
     Inl (ProbeError ''No video stream found'') \<and>
   get_video_metadata xlib (probe_table [(''a.mp4'', sample_probe)]) ''b.mp4'' =
     Inl (FfmpegError ''ffprobe error'') \<and>
   \<not> is_ProbeError (FfmpegError ''ffprobe error'')"
proof -
  let ?pa = "probe_table [(''a.mp4'', sample_probe)]"
  let ?n = "\<lparr>streams = [audio_stream], format = [(''duration'', JStr ''10'')]\<rparr>"
  let ?pn = "probe_table [(''a.mp4'', ?n)]"
  have a1: "?pa ''a.mp4'' = Inr sample_probe" by (simp add: probe_table_def)
  have a2: "streams sample_probe = [audio_stream] @ h264_stream # []"
    by (simp add: sample_probe_def)
  have a3: "list_all declares_other [audio_stream]"
    by (simp add: declares_other_def audio_stream_def)
  have a4: "declares_video h264_stream"
    by (simp add: declares_video_def h264_stream_def)
  have n1: "?pn ''a.mp4'' = Inr ?n" by (simp add: probe_table_def)
  have n2: "list_all declares_other (streams ?n)"
    by (simp add: declares_other_def audio_stream_def)
  have e1: "?pa ''b.mp4'' = Inl (FfmpegError ''ffprobe error'')" by (simp add: probe_table_def)
  have e2: "is_FfmpegError (FfmpegError ''ffprobe error'')" by simp
  show ?thesis
    using get_video_metadata_selection [where ffmpeg_probe = "?pa" and path = "''a.mp4''"
        and p = sample_probe and before = "[audio_stream]" and s = h264_stream and rest = "[]"
        and L = xlib and e = "FfmpegError ''ffprobe error''"]
      get_video_metadata_selection [where ffmpeg_probe = "?pn" and path = "''a.mp4''"
        and p = "?n" and L = xlib and e = "FfmpegError ''ffprobe error''"]
      get_video_metadata_selection [where ffmpeg_probe = "?pa" and path = "''b.mp4''"
        and L = xlib and e = "FfmpegError ''ffprobe error''"]
      a1 a2 a3 a4 n1 n2 e1 e2
    by simp
qed

text \<open>
  C4. The prober is to select the first stream whose codec type is \<^verbatim>\<open>video\<close> and to
  raise \<^verbatim>\<open>ProbeError('No video stream found')\<close> when there is none. Line 44
  subscripts \<^verbatim>\<open>stream['codec_type']\<close>, so a stream without that key stops the search
  with KeyError: with such a stream alone the prober raises KeyError, which is not a
  ProbeError, although no stream declares \<^verbatim>\<open>video\<close>; with such a stream before the
  video stream of the sample file it raises KeyError and selects nothing.
\<close>

theorem get_video_metadata_untyped_stream:
  "\<not> list_ex declares_video [[(''index'', JInt 0), (''codec_name'', JStr ''bin_data'')]] \<and>
   get_video_metadata xlib
     (probe_table
        [(''a.mp4'',
          \<lparr>streams = [[(''index'', JInt 0), (''codec_name'', JStr ''bin_data'')]],
           format = [(''duration'', JStr ''10'')]\<rparr>)])
     ''a.mp4'' = Inl (KeyError ''codec_type'') \<and>
   KeyError ''codec_type'' \<noteq> ProbeError ''No video stream found'' \<and>
   \<not> is_ProbeError (KeyError ''codec_type'') \<and>
   declares_video h264_stream \<and>
   get_video_metadata xlib
     (probe_table
        [(''a.mp4'',
          \<lparr>streams = [[(''index'', JInt 0), (''codec_name'', JStr ''bin_data'')], h264_stream],
           format = [(''duration'', JStr ''10'')]\<rparr>)])
     ''a.mp4'' = Inl (KeyError ''codec_type'')"
  by (simp add: declares_video_def get_video_metadata_def metadata_of_probe_def probe_table_def
      dict_item_def h264_stream_def)

lemma metadata_unhandled:
  assumes "get_video_path (files w) video_id = Some path"
    and "get_video_metadata L (probe_outcome w) path = Inl e" and "\<not> is_ProbeError e"
  shows "metadata L w video_id = Inl e"
  using assms by (simp add: metadata_def id_not_cached_def)




section \<open>The fields of the record\<close>

text \<open>
  C6. The record that the prober returns for a selected video stream has the stream's
  codec name, or \<^verbatim>\<open>unknown\<close> when the stream has none, and as width and height the
  stream's declared values coerced to integers (an integer as it is, a string through
  \<^verbatim>\<open>int\<close>), or 0 when the field is absent. The prober returns that record whenever
  the two coercions succeed and the duration and the frame rate can be read.
\<close>

theorem get_video_metadata_stream_fields:
  assumes "ffmpeg_probe path = Inr p"
    and "first_video (streams p) = Inr (Some s)"
  shows "(get_video_metadata L ffmpeg_probe path = Inr m \<longrightarrow>
           codec m = (case map_of s ''codec_name'' of None \<Rightarrow> JStr ''unknown'' | Some c \<Rightarrow> c) \<and>
           (case map_of s ''width'' of
              None \<Rightarrow> width m = 0
            | Some (JInt n) \<Rightarrow> width m = n
            | Some (JStr t) \<Rightarrow> str_to_int L t = Some (width m)) \<and>
           (case map_of s ''height'' of
              None \<Rightarrow> height m = 0
            | Some (JInt n) \<Rightarrow> height m = n
            | Some (JStr t) \<Rightarrow> str_to_int L t = Some (height m))) \<and>
         (py_int L (dict_get s ''width'' (JInt 0)) = Inr wd \<and>
          py_int L (dict_get s ''height'' (JInt 0)) = Inr ht \<and>
          map_of (format p) ''duration'' = Some dv \<and> py_float L dv = Inr dur \<and>
          frame_rate L (dict_get s ''r_frame_rate'' (JStr ''0/0'')) = Inr fr \<longrightarrow>
            get_video_metadata L ffmpeg_probe path =
              Inr \<lparr>codec = (case map_of s ''codec_name'' of None \<Rightarrow> JStr ''unknown'' | Some c \<Rightarrow> c),
                   width = wd, height = ht, duration = dur, framerate = fr\<rparr>)"
proof -
  have eq: "get_video_metadata L ffmpeg_probe path = metadata_of_probe L p"
    using assms(1) by (simp add: get_video_metadata_def)
  have fields:
    "codec m = (case map_of s ''codec_name'' of None \<Rightarrow> JStr ''unknown'' | Some c \<Rightarrow> c) \<and>
     (case map_of s ''width'' of
        None \<Rightarrow> width m = 0
      | Some (JInt n) \<Rightarrow> width m = n
      | Some (JStr t) \<Rightarrow> str_to_int L t = Some (width m)) \<and>
     (case map_of s ''height'' of
        None \<Rightarrow> height m = 0
      | Some (JInt n) \<Rightarrow> height m = n
      | Some (JStr t) \<Rightarrow> str_to_int L t = Some (height m))"
    if ret: "get_video_metadata L ffmpeg_probe path = Inr m"
  proof -
    have ok: "metadata_of_probe L p = Inr m" using ret by (simp add: eq)
    note f = metadata_of_probe_Inr [OF assms(2) ok]
    have c: "codec m = (case map_of s ''codec_name'' of None \<Rightarrow> JStr ''unknown'' | Some c \<Rightarrow> c)"
      using f(5) by (simp add: dict_get_def)
    have w: "case map_of s ''width'' of
              None \<Rightarrow> width m = 0
            | Some (JInt n) \<Rightarrow> width m = n
            | Some (JStr t) \<Rightarrow> str_to_int L t = Some (width m)"
      using f(1) by (auto simp: dict_get_def py_int_def split: option.splits jval.splits)
    have h: "case map_of s ''height'' of
              None \<Rightarrow> height m = 0
            | Some (JInt n) \<Rightarrow> height m = n
            | Some (JStr t) \<Rightarrow> str_to_int L t = Some (height m)"
      using f(2) by (auto simp: dict_get_def py_int_def split: option.splits jval.splits)
    show ?thesis using c w h by simp
  qed
  have returns: "get_video_metadata L ffmpeg_probe path =
      Inr \<lparr>codec = (case map_of s ''codec_name'' of None \<Rightarrow> JStr ''unknown'' | Some c \<Rightarrow> c),
           width = wd, height = ht, duration = dur, framerate = fr\<rparr>"
    if w: "py_int L (dict_get s ''width'' (JInt 0)) = Inr wd"
      and h: "py_int L (dict_get s ''height'' (JInt 0)) = Inr ht"
      and dv: "map_of (format p) ''duration'' = Some dv" and dur: "py_float L dv = Inr dur"
      and fr: "frame_rate L (dict_get s ''r_frame_rate'' (JStr ''0/0'')) = Inr fr"
  proof -
    have item: "dict_item (format p) ''duration'' = Inr dv"
      using dv by (simp add: dict_item_def)
    have cd: "dict_get s ''codec_name'' (JStr ''unknown'') =
        (case map_of s ''codec_name'' of None \<Rightarrow> JStr ''unknown'' | Some c \<Rightarrow> c)"
      by (simp add: dict_get_def)
    show ?thesis
      unfolding eq metadata_of_probe_selected [OF assms(2)] by (simp add: w h item dur fr cd)
  qed
  show ?thesis using fields returns by blast
qed

theorem get_video_metadata_stream_fields_witness:
  "get_video_metadata xlib
     (probe_table [(''a.mp4'', probe_of [(''codec_name'', JStr ''vp9''), (''width'', JInt 1280)] [(''duration'', JStr ''2.5'')])])
     ''a.mp4'' =
   Inr \<lparr>codec = JStr ''vp9'', width = 1280, height = 0, duration = Finite (5 / 2),
        framerate = Finite 0\<rparr> \<and>
   get_video_metadata xlib
     (probe_table [(''b.mp4'', probe_of [(''width'', JStr ''640''), (''height'', JStr ''480'')] [(''duration'', JStr ''2.5'')])])
     ''b.mp4'' =
   Inr \<lparr>codec = JStr ''unknown'', width = 640, height = 480, duration = Finite (5 / 2),
        framerate = Finite 0\<rparr>"
proof -
  let ?sa = "[(''codec_name'', JStr ''vp9''), (''width'', JInt 1280)]"
  let ?a = "probe_of ?sa [(''duration'', JStr ''2.5'')]"
  let ?pa = "probe_table [(''a.mp4'', ?a)]"
  let ?sb = "[(''width'', JStr ''640''), (''height'', JStr ''480'')]"
  let ?b = "probe_of ?sb [(''duration'', JStr ''2.5'')]"
  let ?pb = "probe_table [(''b.mp4'', ?b)]"
  have a1: "?pa ''a.mp4'' = Inr ?a" by (simp add: probe_table_def)
  have a2: "first_video (streams ?a) = Inr (Some (video_stream_of ?sa))"
    by (simp add: sample_defs dict_item_def)
  obtain ma where a3: "get_video_metadata xlib ?pa ''a.mp4'' = Inr ma"
    and a4: "duration ma = Finite (5 / 2)" "framerate ma = Finite 0"
    by (simp add: get_video_metadata_def metadata_of_probe_def frame_rate_def lib_defs xlib_defs sample_defs)
  have a5: "map_of (video_stream_of ?sa) ''codec_name'' = Some (JStr ''vp9'')"
    "map_of (video_stream_of ?sa) ''width'' = Some (JInt 1280)"
    "map_of (video_stream_of ?sa) ''height'' = None"
    by (simp_all add: video_stream_of_def)
  have ra: "codec ma = JStr ''vp9'' \<and> width ma = 1280 \<and> height ma = 0"
    using get_video_metadata_stream_fields [where ffmpeg_probe = "?pa" and path = "''a.mp4''"
        and p = "?a" and s = "video_stream_of ?sa" and L = xlib and m = ma] a1 a2 a3 a5
    by simp
  have b1: "?pb ''b.mp4'' = Inr ?b" by (simp add: probe_table_def)
  have b2: "first_video (streams ?b) = Inr (Some (video_stream_of ?sb))"
    by (simp add: sample_defs dict_item_def)
  obtain mb where b3: "get_video_metadata xlib ?pb ''b.mp4'' = Inr mb"
    and b4: "duration mb = Finite (5 / 2)" "framerate mb = Finite 0"
    by (simp add: get_video_metadata_def metadata_of_probe_def frame_rate_def lib_defs xlib_defs sample_defs)
  have b5: "map_of (video_stream_of ?sb) ''codec_name'' = None"
    "map_of (video_stream_of ?sb) ''width'' = Some (JStr ''640'')"
    "map_of (video_stream_of ?sb) ''height'' = Some (JStr ''480'')"
    by (simp_all add: video_stream_of_def)
  have b6: "str_to_int xlib ''640'' = Some 640" "str_to_int xlib ''480'' = Some 480"
    by (simp_all add: xlib_defs)
  have rb: "codec mb = JStr ''unknown'' \<and> width mb = 640 \<and> height mb = 480"
    using get_video_metadata_stream_fields [where ffmpeg_probe = "?pb" and path = "''b.mp4''"
        and p = "?b" and s = "video_stream_of ?sb" and L = xlib and m = mb] b1 b2 b3 b5 b6
    by simp
  show ?thesis using a3 a4 ra b3 b4 rb by simp
qed

text \<open>
  C7. The prober checks no sign. The record it returns has a width and a height that are
  not negative exactly when the stream's declared width and height are absent or coerce
  to integers that are not negative; its duration is the float of the format's duration
  entry and its frame rate the value computed from the frame-rate field, as they are.
  So the record invariant holds exactly when the declared width and height are not
  negative and those two floats are not below zero.
\<close>

theorem get_video_metadata_signs:
  assumes "ffmpeg_probe path = Inr p"
    and "first_video (streams p) = Inr (Some s)"
    and "get_video_metadata L ffmpeg_probe path = Inr m"
  shows "(0 \<le> width m) = declared_nonneg L s ''width'' \<and>
         (0 \<le> height m) = declared_nonneg L s ''height'' \<and>
         (\<exists>dv. map_of (format p) ''duration'' = Some dv \<and> py_float L dv = Inr (duration m)) \<and>
         frame_rate L (dict_get s ''r_frame_rate'' (JStr ''0/0'')) = Inr (framerate m) \<and>
         metadata_invariant L m =
           (declared_nonneg L s ''width'' \<and> declared_nonneg L s ''height'' \<and>
            float_le L (float_zero L) (duration m) \<and> float_le L (float_zero L) (framerate m))"
proof -
  have ok: "metadata_of_probe L p = Inr m"
    using assms(1,3) by (simp add: get_video_metadata_def)
  note f = metadata_of_probe_Inr [OF assms(2) ok]
  have w: "(0 \<le> width m) = declared_nonneg L s ''width''"
    using f(1) by (auto simp: declared_nonneg_def dict_get_def py_int_def split: option.splits)
  have h: "(0 \<le> height m) = declared_nonneg L s ''height''"
    using f(2) by (auto simp: declared_nonneg_def dict_get_def py_int_def split: option.splits)
  show ?thesis using w h f(3) f(4) by (simp add: metadata_invariant_def)
qed

theorem get_video_metadata_signs_witness:
  "get_video_metadata xlib (probe_table [(''a.mp4'', sample_probe)]) ''a.mp4'' =
     Inr \<lparr>codec = JStr ''h264'', width = 640, height = 480, duration = Finite 10,
          framerate = Finite 30\<rparr> \<and>
   declared_nonneg xlib h264_stream ''width'' \<and>
   declared_nonneg xlib h264_stream ''height'' \<and>
   metadata_invariant xlib
     \<lparr>codec = JStr ''h264'', width = 640, height = 480, duration = Finite 10,
      framerate = Finite 30\<rparr>"
proof -
  let ?pa = "probe_table [(''a.mp4'', sample_probe)]"
  let ?m = "\<lparr>codec = JStr ''h264'', width = 640, height = 480, duration = Finite 10,
      framerate = Finite 30\<rparr>"
  have a1: "?pa ''a.mp4'' = Inr sample_probe" by (simp add: probe_table_def)
  have a2: "first_video (streams sample_probe) = Inr (Some h264_stream)"
    by (simp add: sample_defs dict_item_def)
  have a3: "get_video_metadata xlib ?pa ''a.mp4'' = Inr ?m"
    by (simp add: get_video_metadata_def metadata_of_probe_def frame_rate_def lib_defs xlib_defs sample_defs)
  have a4: "float_le xlib (float_zero xlib) (duration ?m)"
    "float_le xlib (float_zero xlib) (framerate ?m)"
    by (simp_all add: xlib_def)
  have a5: "0 \<le> width ?m" "0 \<le> height ?m" by simp_all
  show ?thesis
    using get_video_metadata_signs [where ffmpeg_probe = "?pa" and path = "''a.mp4''"
        and p = sample_probe and s = h264_stream and L = xlib and m = "?m"] a1 a2 a3 a4 a5
    by blast
qed

theorem get_video_metadata_negative_fields:
  "get_video_metadata xlib
     (probe_table
        [(''a.mp4'',
          probe_of [(''width'', JInt (- 640)), (''height'', JInt 480), (''r_frame_rate'', JStr ''-30/1'')]
            [(''duration'', JStr ''-0.5'')])])
     ''a.mp4'' =
     Inr \<lparr>codec = JStr ''unknown'', width = - 640, height = 480, duration = Finite (- (1 / 2)),
          framerate = Finite (- 30)\<rparr> \<and>
   \<not> metadata_invariant xlib
       \<lparr>codec = JStr ''unknown'', width = - 640, height = 480, duration = Finite (- (1 / 2)),
        framerate = Finite (- 30)\<rparr>"
  by (simp add: get_video_metadata_def metadata_of_probe_def frame_rate_def lib_defs xlib_defs
      sample_defs metadata_invariant_def)

section \<open>Repeated probing\<close>

text \<open>
  C8. Run as a step of the program, the prober leaves the outside world as it was and
  runs ffprobe exactly once, on the path. A second call, made in the state that the first
  call left or in any later world in which ffprobe still returns the same for the path,
  returns what the first call returned, whatever else has changed. The result of the step
  is the result of \<open>get_video_metadata\<close> on what ffprobe returns in that world: it is
  the exception of ffprobe when it fails and, when it returns a probe result with a video
  stream whose fields can be read, the record built from that stream and the format.
\<close>

theorem get_video_metadata_step_idempotent:
  assumes "probe_outcome w' path = probe_outcome w path"
  shows "fst (get_video_metadata_step L (w', inspected') path) =
           fst (get_video_metadata_step L (w, inspected) path) \<and>
         fst (get_video_metadata_step L (snd (get_video_metadata_step L (w, inspected) path)) path) =
           fst (get_video_metadata_step L (w, inspected) path) \<and>
         snd (get_video_metadata_step L (w, inspected) path) = (w, inspected @ [path]) \<and>
         fst (get_video_metadata_step L (w, inspected) path) =
           get_video_metadata L (probe_outcome w) path \<and>
         (probe_outcome w path = Inl e \<longrightarrow>
            fst (get_video_metadata_step L (w, inspected) path) = Inl e) \<and>
         (probe_outcome w path = Inr p \<and> first_video (streams p) = Inr None \<longrightarrow>
            fst (get_video_metadata_step L (w, inspected) path) =
              Inl (ProbeError ''No video stream found'')) \<and>
         (probe_outcome w path = Inr p \<and> first_video (streams p) = Inr (Some s) \<and>
          py_int L (dict_get s ''width'' (JInt 0)) = Inr wd \<and>
          py_int L (dict_get s ''height'' (JInt 0)) = Inr ht \<and>
          map_of (format p) ''duration'' = Some dv \<and> py_float L dv = Inr dur \<and>
          frame_rate L (dict_get s ''r_frame_rate'' (JStr ''0/0'')) = Inr fr \<longrightarrow>
            fst (get_video_metadata_step L (w, inspected) path) =
              Inr \<lparr>codec = dict_get s ''codec_name'' (JStr ''unknown''), width = wd, height = ht,
                   duration = dur, framerate = fr\<rparr> \<and>
            fst (get_video_metadata_step L (w', inspected') path) =
              Inr \<lparr>codec = dict_get s ''codec_name'' (JStr ''unknown''), width = wd, height = ht,
                   duration = dur, framerate = fr\<rparr>)"
proof -
  have res: "fst (get_video_metadata_step L (v, l) path) =
      (case probe_outcome v path of Inl e \<Rightarrow> Inl e | Inr p \<Rightarrow> metadata_of_probe L p)" for v l
    by (simp add: get_video_metadata_step_def run_ffprobe_def split: sum.splits)
  have st: "snd (get_video_metadata_step L (v, l) path) = (v, l @ [path])" for v l
    by (simp add: get_video_metadata_step_def run_ffprobe_def split: sum.splits)
  have same: "fst (get_video_metadata_step L (w', inspected') path) =
      fst (get_video_metadata_step L (w, inspected) path)"
    by (simp add: res assms)
  have again: "fst (get_video_metadata_step L (snd (get_video_metadata_step L (w, inspected) path)) path) =
      fst (get_video_metadata_step L (w, inspected) path)"
    by (simp add: st res)
  have fails: "fst (get_video_metadata_step L (w, inspected) path) = Inl e"
    if "probe_outcome w path = Inl e"
    using that by (simp add: res)
  have none: "fst (get_video_metadata_step L (w, inspected) path) =
      Inl (ProbeError ''No video stream found'')"
    if "probe_outcome w path = Inr p" "first_video (streams p) = Inr None"
    using that by (simp add: res metadata_of_probe_def)
  have rec: "fst (get_video_metadata_step L (w, inspected) path) =
      Inr \<lparr>codec = dict_get s ''codec_name'' (JStr ''unknown''), width = wd, height = ht,
           duration = dur, framerate = fr\<rparr>"
    if po: "probe_outcome w path = Inr p" and sel: "first_video (streams p) = Inr (Some s)"
      and wd: "py_int L (dict_get s ''width'' (JInt 0)) = Inr wd"
      and ht: "py_int L (dict_get s ''height'' (JInt 0)) = Inr ht"
      and dv: "map_of (format p) ''duration'' = Some dv" and dur: "py_float L dv = Inr dur"
      and fr: "frame_rate L (dict_get s ''r_frame_rate'' (JStr ''0/0'')) = Inr fr"
  proof -
    have item: "dict_item (format p) ''duration'' = Inr dv"
      using dv by (simp add: dict_item_def)
    have "metadata_of_probe L p =
        Inr \<lparr>codec = dict_get s ''codec_name'' (JStr ''unknown''), width = wd, height = ht,
             duration = dur, framerate = fr\<rparr>"
      unfolding metadata_of_probe_selected [OF sel] by (simp add: wd ht item dur fr)
    then show ?thesis using po by (simp add: res)
  qed
  have fn: "fst (get_video_metadata_step L (w, inspected) path) =
      get_video_metadata L (probe_outcome w) path"
    by (simp add: res get_video_metadata_def)
  show ?thesis using same again st [of w inspected] fn fails none rec by metis
qed

theorem get_video_metadata_step_idempotent_witness:
  "probe_outcome (later_world_of sample_probe) ''static/video.mp4'' =
     probe_outcome (world_of sample_probe) ''static/video.mp4'' \<and>
   get_video_metadata_step xlib (world_of sample_probe, []) ''static/video.mp4'' =
     (Inr \<lparr>codec = JStr ''h264'', width = 640, height = 480, duration = Finite 10,
           framerate = Finite 30\<rparr>,
      (world_of sample_probe, [''static/video.mp4''])) \<and>
   fst (get_video_metadata_step xlib (world_of sample_probe, [''static/video.mp4'']) ''static/video.mp4'') =
     Inr \<lparr>codec = JStr ''h264'', width = 640, height = 480, duration = Finite 10,
          framerate = Finite 30\<rparr> \<and>
   fst (get_video_metadata_step xlib (later_world_of sample_probe, [''static/video.mp4''])
          ''static/video.mp4'') =
     Inr \<lparr>codec = JStr ''h264'', width = 640, height = 480, duration = Finite 10,
          framerate = Finite 30\<rparr>"
proof -
  let ?v = "''static/video.mp4''"
  let ?w = "world_of sample_probe"
  let ?w' = "later_world_of sample_probe"
  let ?m = "\<lparr>codec = JStr ''h264'', width = 640, height = 480, duration = Finite 10,
          framerate = Finite 30 :: xfloat\<rparr>"
  have h0: "probe_outcome ?w' ?v = probe_outcome ?w ?v"
    by (simp add: world_of_def later_world_of_def probe_table_def)
  have h1: "probe_outcome ?w ?v = Inr sample_probe"
    by (simp add: world_of_def probe_table_def)
  have h2: "first_video (streams sample_probe) = Inr (Some h264_stream)"
    by (simp add: sample_defs dict_item_def)
  have h3: "py_int xlib (dict_get h264_stream ''width'' (JInt 0)) = Inr 640"
    "py_int xlib (dict_get h264_stream ''height'' (JInt 0)) = Inr 480"
    "dict_get h264_stream ''codec_name'' (JStr ''unknown'') = JStr ''h264''"
    by (simp_all add: lib_defs h264_stream_def)
  have h4: "map_of (format sample_probe) ''duration'' = Some (JStr ''10.000000'')"
    "py_float xlib (JStr ''10.000000'') = Inr (Finite 10)"
    by (simp_all add: sample_probe_def lib_defs xlib_defs)
  have h5: "frame_rate xlib (dict_get h264_stream ''r_frame_rate'' (JStr ''0/0'')) = Inr (Finite 30)"
    by (simp add: frame_rate_def lib_defs xlib_defs h264_stream_def)
  let ?r = "\<lparr>codec = dict_get h264_stream ''codec_name'' (JStr ''unknown''), width = 640,
          height = 480, duration = Finite 10, framerate = Finite 30 :: xfloat\<rparr>"
  note inst = get_video_metadata_step_idempotent [where L = xlib and path = ?v and w = ?w
      and w' = ?w' and inspected = "[]" and inspected' = "[?v]" and e = ValueError
      and p = sample_probe and s = h264_stream and wd = 640 and ht = 480
      and dv = "JStr ''10.000000''" and dur = "Finite 10" and fr = "Finite 30", OF h0]
  have r1: "fst (get_video_metadata_step xlib (?w, []) ?v) = Inr ?r"
    using inst h1 h2 h3(1,2) h4 h5 by blast
  have r2: "fst (get_video_metadata_step xlib (?w', [?v]) ?v) = Inr ?r"
    using inst h1 h2 h3(1,2) h4 h5 by blast
  have r3: "snd (get_video_metadata_step xlib (?w, []) ?v) = (?w, [] @ [?v])"
    using inst by blast
  have r4: "fst (get_video_metadata_step xlib (snd (get_video_metadata_step xlib (?w, []) ?v)) ?v) =
      fst (get_video_metadata_step xlib (?w, []) ?v)"
    using inst by blast
  have first: "fst (get_video_metadata_step xlib (?w, []) ?v) = Inr ?m"
    "snd (get_video_metadata_step xlib (?w, []) ?v) = (?w, [?v])"
    using r1 r3 h3(3) by simp_all
  have second: "fst (get_video_metadata_step xlib (?w, [?v]) ?v) = Inr ?m"
    using r4 first by simp
  have later: "fst (get_video_metadata_step xlib (?w', [?v]) ?v) = Inr ?m"
    using r2 h3(3) by simp
  show ?thesis using h0 first second later by (simp add: prod_eq_iff)
qed

section \<open>The identifier in the cache path\<close>

lemma path_traversal_not_Nil: "path_traversal i \<Longrightarrow> i \<noteq> []"
  by (auto simp: path_traversal_def)

text \<open>
  C9. The locator does not look at the characters of the identifier: an identifier with
  a path separator or a \<^verbatim>\<open>..\<close> sequence is interpolated into the cache path like any
  other, and that path is returned when something exists there.
\<close>

theorem get_video_path_interpolates:
  "path_traversal i \<Longrightarrow>
   get_video_path fs (Some i) =
     (if path_exists fs (''static/cache/cached_'' @ i @ ''.mp4'')
      then Some (''static/cache/cached_'' @ i @ ''.mp4'') else None)"
  using path_traversal_not_Nil [of i]
  by (simp add: get_video_path_def cache_path_def)

theorem get_video_path_interpolates_witness:
  "path_traversal ''x/../../video'' \<and>
   get_video_path {''static/cache/cached_x/../../video.mp4''} (Some ''x/../../video'') =
     Some ''static/cache/cached_x/../../video.mp4''"
proof -
  have h: "path_traversal ''x/../../video''" by (simp add: path_traversal_def)
  show ?thesis
    using h get_video_path_interpolates [OF h, of "{''static/cache/cached_x/../../video.mp4''}"]
    by (simp add: path_exists_def)
qed

theorem get_video_path_traversal_accepted:
  "path_traversal ''../../secret'' \<and>
   get_video_path {''static/cache/cached_../../secret.mp4''} (Some ''../../secret'') =
     Some ''static/cache/cached_../../secret.mp4'' \<and>
   get_video_path {''static/cache/cached_../../secret.mp4''} (Some ''../../secret'') \<noteq> None"
  by (simp add: path_traversal_def get_video_path_def cache_path_def path_exists_def)

section \<open>Frame rates that are not well formed\<close>

lemma frame_rate_parts:
  "frame_rate L (JStr r) =
     (case split_on CHR ''/'' r of
        [num, den] \<Rightarrow>
          (case str_to_float L den of
             None \<Rightarrow> Inl ValueError
           | Some d \<Rightarrow>
               if float_is_zero L d then Inr (float_zero L)
               else (case str_to_float L num of
                       None \<Rightarrow> Inl ValueError
                     | Some n \<Rightarrow> Inr (float_quot L n d)))
      | _ \<Rightarrow> Inl ValueError)"
  by (simp add: frame_rate_def py_float_def py_truediv_def split: list.splits option.splits)

text \<open>
  C10. Let the selected video stream carry a string frame rate, and let the width, the
  height and the duration have been read. The prober raises ValueError, which is not a
  ProbeError and which the metadata route does not catch, when the string does not split
  into exactly two parts at the slash, when the second part is not parsable as a float,
  and when the second part parses to a float that is not zero while the first part is not
  parsable. When the second part parses to zero the first part is never parsed: the
  prober returns the record with the frame rate 0.0.
\<close>

theorem get_video_metadata_malformed_frame_rate:
  assumes "ffmpeg_probe path = Inr p"
    and "first_video (streams p) = Inr (Some s)"
    and "map_of s ''r_frame_rate'' = Some (JStr r)"
    and "py_int L (dict_get s ''width'' (JInt 0)) = Inr wd"
    and "py_int L (dict_get s ''height'' (JInt 0)) = Inr ht"
    and "map_of (format p) ''duration'' = Some dv"
    and "py_float L dv = Inr dur"
  shows "(length (split_on CHR ''/'' r) \<noteq> 2 \<longrightarrow>
            get_video_metadata L ffmpeg_probe path = Inl ValueError) \<and>
         (split_on CHR ''/'' r = [num, den] \<and> str_to_float L den = None \<longrightarrow>
            get_video_metadata L ffmpeg_probe path = Inl ValueError) \<and>
         (split_on CHR ''/'' r = [num, den] \<and> str_to_float L den = Some d \<and>
          \<not> float_is_zero L d \<and> str_to_float L num = None \<longrightarrow>
            get_video_metadata L ffmpeg_probe path = Inl ValueError) \<and>
         (split_on CHR ''/'' r = [num, den] \<and> str_to_float L den = Some d \<and>
          float_is_zero L d \<longrightarrow>
            get_video_metadata L ffmpeg_probe path =
              Inr \<lparr>codec = dict_get s ''codec_name'' (JStr ''unknown''), width = wd, height = ht,
                   duration = dur, framerate = float_zero L\<rparr>) \<and>
         \<not> is_ProbeError ValueError \<and>
         (get_video_metadata L ffmpeg_probe path = Inl ValueError \<and>
          probe_outcome w = ffmpeg_probe \<and> get_video_path (files w) video_id = Some path \<longrightarrow>
            metadata L w video_id = Inl ValueError)"
proof -
  have rate: "dict_get s ''r_frame_rate'' (JStr ''0/0'') = JStr r"
    using assms(3) by (simp add: dict_get_def)
  have item: "dict_item (format p) ''duration'' = Inr dv"
    using assms(6) by (simp add: dict_item_def)
  have eq: "get_video_metadata L ffmpeg_probe path =
      (case frame_rate L (JStr r) of
         Inl e \<Rightarrow> Inl e
       | Inr fr \<Rightarrow>
           Inr \<lparr>codec = dict_get s ''codec_name'' (JStr ''unknown''), width = wd, height = ht,
                duration = dur, framerate = fr\<rparr>)"
    using assms(1) metadata_of_probe_selected [OF assms(2), of L]
    by (simp add: get_video_metadata_def rate item assms(4,5,7))
  have c1: "get_video_metadata L ffmpeg_probe path = Inl ValueError"
    if "length (split_on CHR ''/'' r) \<noteq> 2"
  proof -
    have "frame_rate L (JStr r) = Inl ValueError"
      using that by (auto simp: frame_rate_parts split: list.splits)
    then show ?thesis by (simp add: eq)
  qed
  have c2: "get_video_metadata L ffmpeg_probe path = Inl ValueError"
    if "split_on CHR ''/'' r = [num, den]" "str_to_float L den = None"
    unfolding eq frame_rate_parts using that by simp
  have c3: "get_video_metadata L ffmpeg_probe path = Inl ValueError"
    if "split_on CHR ''/'' r = [num, den]" "str_to_float L den = Some d"
       "\<not> float_is_zero L d" "str_to_float L num = None"
    unfolding eq frame_rate_parts using that by simp
  have c4: "get_video_metadata L ffmpeg_probe path =
              Inr \<lparr>codec = dict_get s ''codec_name'' (JStr ''unknown''), width = wd, height = ht,
                   duration = dur, framerate = float_zero L\<rparr>"
    if "split_on CHR ''/'' r = [num, den]" "str_to_float L den = Some d" "float_is_zero L d"
    unfolding eq frame_rate_parts using that by simp
  have c5: "metadata L w video_id = Inl ValueError"
    if "get_video_metadata L ffmpeg_probe path = Inl ValueError"
       "probe_outcome w = ffmpeg_probe" "get_video_path (files w) video_id = Some path"
    using metadata_unhandled [OF that(3), of L ValueError] that(1,2) by simp
  show ?thesis using c1 c2 c3 c4 c5 by simp
qed


theorem get_video_metadata_malformed_frame_rate_witness:
  "get_video_metadata xlib
     (probe_table [(''static/video.mp4'', probe_of [(''r_frame_rate'', JStr ''30'')] [(''duration'', JStr ''10'')])])
     ''static/video.mp4'' = Inl ValueError \<and>
   get_video_metadata xlib
     (probe_table [(''static/video.mp4'', probe_of [(''r_frame_rate'', JStr ''1/2/3'')] [(''duration'', JStr ''10'')])])
     ''static/video.mp4'' = Inl ValueError \<and>
   get_video_metadata xlib
     (probe_table [(''static/video.mp4'', probe_of [(''r_frame_rate'', JStr ''1/abc'')] [(''duration'', JStr ''10'')])])
     ''static/video.mp4'' = Inl ValueError \<and>
   get_video_metadata xlib
     (probe_table [(''static/video.mp4'', probe_of [(''r_frame_rate'', JStr ''abc/1'')] [(''duration'', JStr ''10'')])])
     ''static/video.mp4'' = Inl ValueError \<and>
   metadata xlib (world_of (probe_of [(''r_frame_rate'', JStr ''abc/1'')] [(''duration'', JStr ''10'')])) None =
     Inl ValueError \<and>
   get_video_metadata xlib
     (probe_table [(''static/video.mp4'', probe_of [(''r_frame_rate'', JStr ''7/0'')] [(''duration'', JStr ''10'')])])
     ''static/video.mp4'' =
     Inr \<lparr>codec = JStr ''unknown'', width = 0, height = 0, duration = Finite 10,
          framerate = Finite 0\<rparr>"
proof -
  let ?v = "''static/video.mp4''"
  let ?S = "\<lambda>r. video_stream_of [(''r_frame_rate'', JStr r)]"
  let ?P = "\<lambda>r. probe_of [(''r_frame_rate'', JStr r)] [(''duration'', JStr ''10'')]"
  let ?F = "\<lambda>r. probe_table [(?v, ?P r)]"
  have h1: "?F r ?v = Inr (?P r)" for r by (simp add: probe_table_def)
  have h2: "first_video (streams (?P r)) = Inr (Some (?S r))" for r
    by (simp add: sample_defs dict_item_def)
  have h3: "map_of (?S r) ''r_frame_rate'' = Some (JStr r)" for r
    by (simp add: video_stream_of_def)
  have h4: "py_int xlib (dict_get (?S r) ''width'' (JInt 0)) = Inr 0"
    "py_int xlib (dict_get (?S r) ''height'' (JInt 0)) = Inr 0" for r
    by (simp_all add: lib_defs video_stream_of_def)
  have h5: "map_of (format (?P r)) ''duration'' = Some (JStr ''10'')" for r
    by (simp add: probe_of_def)
  have h6: "py_float xlib (JStr ''10'') = Inr (Finite 10)"
    by (simp add: lib_defs xlib_defs)
  have h7: "dict_get (?S r) ''codec_name'' (JStr ''unknown'') = JStr ''unknown''" for r
    by (simp add: dict_get_def video_stream_of_def)
  note inst = get_video_metadata_malformed_frame_rate [where L = xlib and path = ?v
      and wd = 0 and ht = 0 and dv = "JStr ''10''" and dur = "Finite 10", OF _ h2 h3 h4 h5 h6]
  have s1: "length (split_on CHR ''/'' ''30'') \<noteq> 2" "length (split_on CHR ''/'' ''1/2/3'') \<noteq> 2"
    by simp_all
  have s2: "split_on CHR ''/'' ''1/abc'' = [''1'', ''abc'']" "str_to_float xlib ''abc'' = None"
    by (simp_all add: xlib_defs)
  have s3: "split_on CHR ''/'' ''abc/1'' = [''abc'', ''1'']" "str_to_float xlib ''1'' = Some (Finite 1)"
    "\<not> float_is_zero xlib (Finite 1)"
    by (simp_all add: xlib_defs)
  have s4: "split_on CHR ''/'' ''7/0'' = [''7'', ''0'']" "str_to_float xlib ''0'' = Some (Finite 0)"
    "float_is_zero xlib (Finite 0)" "float_zero xlib = Finite 0"
    by (simp_all add: xlib_defs)
  have w1: "probe_outcome (world_of (?P r)) = ?F r" for r by (simp add: world_of_def)
  have w2: "get_video_path (files (world_of (?P r))) None = Some ?v" for r
    by (simp add: get_video_path_def VIDEO_PATH_def)
  have r1: "get_video_metadata xlib (?F ''30'') ?v = Inl ValueError"
    using inst [where ffmpeg_probe = "?F ''30''" and r = "''30''", OF h1] s1 by simp
  have r2: "get_video_metadata xlib (?F ''1/2/3'') ?v = Inl ValueError"
    using inst [where ffmpeg_probe = "?F ''1/2/3''" and r = "''1/2/3''", OF h1] s1 by simp
  have r3: "get_video_metadata xlib (?F ''1/abc'') ?v = Inl ValueError"
    using inst [where ffmpeg_probe = "?F ''1/abc''" and r = "''1/abc''" and num = "''1''"
        and den = "''abc''", OF h1] s2
    by simp
  have r4: "get_video_metadata xlib (?F ''abc/1'') ?v = Inl ValueError"
    using inst [where ffmpeg_probe = "?F ''abc/1''" and r = "''abc/1''" and num = "''abc''"
        and den = "''1''" and d = "Finite 1", OF h1] s2 s3
    by simp
  have r5: "metadata xlib (world_of (?P ''abc/1'')) None = Inl ValueError"
    using inst [where ffmpeg_probe = "?F ''abc/1''" and r = "''abc/1''"
        and w = "world_of (?P ''abc/1'')" and video_id = None, OF h1] r4 w1 w2
    by simp
  have r6: "get_video_metadata xlib (?F ''7/0'') ?v =
     Inr \<lparr>codec = JStr ''unknown'', width = 0, height = 0, duration = Finite 10,
          framerate = Finite 0\<rparr>"
    using inst [where ffmpeg_probe = "?F ''7/0''" and r = "''7/0''" and num = "''7''"
        and den = "''0''" and d = "Finite 0", OF h1] s4 h7 [of "''7/0''"]
    by simp
  show ?thesis using r1 r2 r3 r4 r5 r6 by simp
qed

theorem get_video_metadata_unparsed_numerator:
  "split_on CHR ''/'' ''abc/0'' = [''abc'', ''0''] \<and>
   str_to_float xlib ''abc'' = None \<and>
   get_video_metadata xlib
     (probe_table [(''static/video.mp4'', probe_of [(''r_frame_rate'', JStr ''abc/0'')] [(''duration'', JStr ''10'')])])
     ''static/video.mp4'' =
     Inr \<lparr>codec = JStr ''unknown'', width = 0, height = 0, duration = Finite 10,
          framerate = Finite 0\<rparr>"
  by (simp add: get_video_metadata_def metadata_of_probe_def frame_rate_def lib_defs xlib_defs
      sample_defs)

end
